theory Spec2Isabelle
  imports Complex_Main "HOL-Library.Word" "HOL-Library.Multiset" "HOL-Library.Sublist"
    "HOL-Library.Product_Lexorder"
begin

unbundle bit_operations_syntax

section \<open>Values shared by the whole development\<close>

text \<open>
  A JavaScript number whose arithmetic is exact in the code (small integers, halves, the
  components of a stored vector) is modelled as a real; the similarities of semantic mode,
  which the code computes in rounded double arithmetic, are values of \<open>double\<close>, with
  NaN and the infinities. The 32-bit integer operations of the language
  (\<open>|\<close>, \<open>&\<close>, \<open><<\<close>, \<open>Math.imul\<close>) go through \<open>32 word\<close>, so their wrap-around is
  the machine's. A string is a \<open>string\<close>, one \<open>char\<close> per code unit; the model therefore
  covers texts whose code units are below 256. An exception is a value of \<open>js_error\<close>, and
  a call that may throw returns \<open>js_error + 'a\<close>.
\<close>

type_synonym number = real

datatype js_error = Error string

definition ToInt32 :: "int \<Rightarrow> int" where
  "ToInt32 n = sint (word_of_int n :: 32 word)"

definition imul :: "int \<Rightarrow> int \<Rightarrow> int" where
  "imul a b = sint ((word_of_int a :: 32 word) * word_of_int b)"

definition shl32 :: "int \<Rightarrow> nat \<Rightarrow> int" where
  "shl32 a k = sint (push_bit k (word_of_int a :: 32 word))"

text \<open>The remainder operator \<open>%\<close> truncates towards zero: the sign is the dividend's.\<close>

definition js_rem :: "int \<Rightarrow> int \<Rightarrow> int" where
  "js_rem a b = sgn a * (\<bar>a\<bar> mod \<bar>b\<bar>)"

definition charCode :: "char \<Rightarrow> int" where
  "charCode c = int (of_char c)"

abbreviation (input) MAX_RETRIES :: nat where
  "MAX_RETRIES \<equiv> 3"

section \<open>The generative-AI client (lib/gemini)\<close>

text \<open>
  What one run of a retry loop did: the value it returned, the requests it sent to the
  remote service and the delays it slept, both in the order they happened.
\<close>

record ('r, 'a) run =
  result :: 'a
  calls :: "'r list"
  delays :: "nat list"

subsection \<open>summarizeCommit\<close>




subsection \<open>generateEmbedding\<close>

record embed_request =
  role :: string
  parts :: "string list"

datatype content_embedding = ContentEmbedding (values_of: "number list option")

datatype embed_response = EmbedResponse (embedding_of: "content_embedding option")

text \<open>The request of every attempt: one part, the text or the placeholder for an empty one.\<close>

definition embed_request_for :: "string \<Rightarrow> embed_request" where
  "embed_request_for text =
     \<lparr>role = ''user'', parts = [if text = [] then ''empty text'' else text]\<rparr>"

text \<open>
  The body of the \<open>try\<close>: the call may throw, and a response without an embedding, without
  values or with no value throws inside the client.
\<close>

definition embed_try ::
  "(nat \<Rightarrow> embed_request \<Rightarrow> js_error + embed_response) \<Rightarrow> nat \<Rightarrow> string \<Rightarrow> js_error + number list" where
  "embed_try embedContent k text =
     (case embedContent k (embed_request_for text) of
        Inl e \<Rightarrow> Inl e
      | Inr res \<Rightarrow>
          (case embedding_of res of
             None \<Rightarrow> Inl (Error ''Empty embedding returned from Gemini API'')
           | Some emb \<Rightarrow>
               (case values_of emb of
                  None \<Rightarrow> Inl (Error ''Empty embedding returned from Gemini API'')
                | Some vs \<Rightarrow>
                    if length vs = 0 then Inl (Error ''Empty embedding returned from Gemini API'')
                    else Inr vs)))"

text \<open>
  The fallback of the exhausted loop: component \<open>i\<close> folds the characters of the text (of
  \<open>fallback\<close> for an empty text) into a 32-bit hash started at \<open>i + 1\<close>.
\<close>

definition fallback_hash :: "string \<Rightarrow> nat \<Rightarrow> int" where
  "fallback_hash text i =
     foldl (\<lambda>h c. ToInt32 (imul 31 h + charCode c))
       (int i + 1) (if text = [] then ''fallback'' else text)"

definition fallbackEmbedding :: "string \<Rightarrow> number list" where
  "fallbackEmbedding text =
     map (\<lambda>i. real_of_int (js_rem (fallback_hash text i) 200) / 100 - 1) [0..<768]"

function generateEmbedding_loop ::
  "(nat \<Rightarrow> embed_request \<Rightarrow> js_error + embed_response) \<Rightarrow> string \<Rightarrow> nat
     \<Rightarrow> (embed_request, number list) run" where
  "generateEmbedding_loop embedContent text retries =
     (if retries < MAX_RETRIES then
        (case embed_try embedContent retries text of
           Inr vs \<Rightarrow> \<lparr>result = vs, calls = [embed_request_for text], delays = []\<rparr>
         | Inl error \<Rightarrow>
             (if retries + 1 < MAX_RETRIES then
                (let r = generateEmbedding_loop embedContent text (retries + 1)
                 in r\<lparr>calls := embed_request_for text # calls r,
                      delays := (2 ^ (retries + 1) * 1000) # delays r\<rparr>)
              else \<lparr>result = fallbackEmbedding text,
                     calls = [embed_request_for text], delays = []\<rparr>))
      else \<lparr>result = replicate 768 0, calls = [], delays = []\<rparr>)"
  by pat_completeness auto
termination
  by (relation "measure (\<lambda>(e, t, retries). MAX_RETRIES - retries)") auto

definition generateEmbedding ::
  "(nat \<Rightarrow> embed_request \<Rightarrow> js_error + embed_response) \<Rightarrow> string
     \<Rightarrow> (embed_request, number list) run" where
  "generateEmbedding embedContent text = generateEmbedding_loop embedContent text 0"


text \<open>Scripted services used where a property is evaluated on a concrete run.\<close>

definition api_always_throws :: "nat \<Rightarrow> embed_request \<Rightarrow> js_error + embed_response" where
  "api_always_throws k req = Inl (Error ''429 Too Many Requests'')"

definition api_no_embedding :: "nat \<Rightarrow> embed_request \<Rightarrow> js_error + embed_response" where
  "api_no_embedding k req = Inr (EmbedResponse None)"





section \<open>The embedding pipeline's helpers (lib/embeddingPipeline)\<close>

text \<open>
  \<open>createFallbackEmbedding\<close>: a 32-bit string hash seeds a generator built on the sine;
  component \<open>i\<close> is the fractional part of \<open>sin (hash + i) * 10000\<close>.
\<close>

definition createFallbackEmbedding_hash :: "string \<Rightarrow> int" where
  "createFallbackEmbedding_hash str =
     foldl (\<lambda>hash c. ToInt32 ((shl32 hash 5 - hash) + charCode c)) 0 str"

definition seededRandom :: "int \<Rightarrow> number" where
  "seededRandom seed = (let x = sin (real_of_int seed) * 10000 in x - real_of_int \<lfloor>x\<rfloor>)"

definition createFallbackEmbedding :: "string \<Rightarrow> number list" where
  "createFallbackEmbedding text =
     (let textHash = createFallbackEmbedding_hash text
      in map (\<lambda>i. seededRandom (textHash + int i)) [0..<768])"

text \<open>
  \<open>summarizeCode\<close> and the pipeline's own \<open>generateEmbedding\<close> wrap the client's functions
  in a \<open>try\<close>; the imported function is the first argument, with its possible exception.
\<close>

definition summarizeCode_prompt :: "string \<Rightarrow> string" where
  "summarizeCode_prompt code =
     ''You are an intelligent senior software engineer specializing in onboarding people. Explain the purpose of the following code in no more than 100 words.''
     @ [CHR 0x0A, CHR 0x0A] @ take 10000 code"

definition summarizeCode :: "(string \<Rightarrow> js_error + string) \<Rightarrow> string \<Rightarrow> string" where
  "summarizeCode summarizeCommit' code =
     (case summarizeCommit' (summarizeCode_prompt code) of
        Inr summary \<Rightarrow> summary
      | Inl err \<Rightarrow> [])"

definition pipeline_generateEmbedding ::
  "(string \<Rightarrow> js_error + number list) \<Rightarrow> string \<Rightarrow> number list" where
  "pipeline_generateEmbedding geminiGenerateEmbedding text =
     (case geminiGenerateEmbedding text of
        Inr v \<Rightarrow> v
      | Inl err \<Rightarrow> createFallbackEmbedding text)"

section \<open>The repository loader (lib/githubLoader)\<close>

record document =
  pageContent :: string
  source :: "string option"

record loader_config =
  branch :: string
  recursive :: bool
  unknown :: string
  accessToken :: "string option"
  maxConcurrency :: nat
  ignoreFiles :: "string list"

definition ignored_globs :: "string list" where
  "ignored_globs =
     [''**/*.jpg'', ''**/*.jpeg'', ''**/*.png'', ''**/*.gif'', ''**/*.svg'', ''**/*.ico'',
      ''**/*.mp4'', ''**/*.mp3'', ''**/*.wav'', ''**/*.ogg'', ''**/*.pdf'', ''**/*.zip'',
      ''**/*.tar.gz'']"

text \<open>The options of the first and of the second attempt, as the two object literals.\<close>

definition main_options :: "string option \<Rightarrow> bool option \<Rightarrow> loader_config" where
  "main_options token rec =
     \<lparr>branch = ''main'',
      recursive = (case rec of None \<Rightarrow> False | Some r \<Rightarrow> r),
      unknown = ''warn'',
      accessToken = token,
      maxConcurrency = 5,
      ignoreFiles = ignored_globs\<rparr>"

definition master_options :: "string option \<Rightarrow> bool option \<Rightarrow> loader_config" where
  "master_options token rec =
     \<lparr>branch = ''master'',
      recursive = (case rec of None \<Rightarrow> False | Some r \<Rightarrow> r),
      unknown = ''warn'',
      accessToken = token,
      maxConcurrency = 5,
      ignoreFiles = ignored_globs\<rparr>"

text \<open>\<open>s.split(c)\<close> for a one-character separator; the result is never empty.\<close>

fun split_on :: "char \<Rightarrow> string \<Rightarrow> string list" where
  "split_on c [] = [[]]"
| "split_on c (x # xs) =
     (if x = c then [] # split_on c xs
      else (case split_on c xs of
              [] \<Rightarrow> [[x]]
            | w # ws \<Rightarrow> (x # w) # ws))"

definition placeholder_readme :: "string \<Rightarrow> document" where
  "placeholder_readme repoUrl =
     \<lparr>pageContent = ''# '' @ last (split_on CHR ''/'' repoUrl) @ [CHR 0x0A, CHR 0x0A]
        @ ''This repository appears to be empty or inaccessible. Please add some files to this repository.'',
      source = Some ''README.md''\<rparr>"

text \<open>
  The hosting loader is a parameter: \<open>load repoUrl options\<close> is what constructing a loader
  with these options and calling its \<open>load\<close> gives, an exception or the documents. The run
  records the options of every attempt.
\<close>

definition loadGitHubRepository ::
  "(string \<Rightarrow> loader_config \<Rightarrow> js_error + document list) \<Rightarrow> string \<Rightarrow> string option
     \<Rightarrow> bool option \<Rightarrow> (loader_config, document list) run" where
  "loadGitHubRepository load repoUrl token rec =
     (case load repoUrl (main_options token rec) of
        Inr docs \<Rightarrow> \<lparr>result = docs, calls = [main_options token rec], delays = []\<rparr>
      | Inl error \<Rightarrow>
          (case load repoUrl (master_options token rec) of
             Inr docs \<Rightarrow>
               \<lparr>result = docs,
                calls = [main_options token rec, master_options token rec], delays = []\<rparr>
           | Inl secondError \<Rightarrow>
               \<lparr>result = [placeholder_readme repoUrl],
                calls = [main_options token rec, master_options token rec], delays = []\<rparr>))"

definition load_only_master :: "string \<Rightarrow> loader_config \<Rightarrow> js_error + document list" where
  "load_only_master repoUrl opts =
     (if branch opts = ''master''
      then Inr [\<lparr>pageContent = ''hello'', source = Some ''index.js''\<rparr>]
      else Inl (Error ''404 Not Found''))"

definition load_nothing :: "string \<Rightarrow> loader_config \<Rightarrow> js_error + document list" where
  "load_nothing repoUrl opts = Inl (Error ''404 Not Found'')"

section \<open>Strings and sorting as the language has them\<close>

text \<open>
  \<open>toLowerCase\<close> on code units below 256: the ASCII capitals and the capitals of the
  Latin-1 block move up by 32. \<open>js_includes hay needle\<close> is \<open>hay.includes(needle)\<close>.
\<close>

definition lower_char :: "char \<Rightarrow> char" where
  "lower_char c =
     (let n = (of_char c :: nat)
      in if (65 \<le> n \<and> n \<le> 90) \<or> (192 \<le> n \<and> n \<le> 222 \<and> n \<noteq> 215)
         then char_of (n + 32) else c)"

definition toLowerCase :: "string \<Rightarrow> string" where
  "toLowerCase s = map lower_char s"

fun js_includes :: "string \<Rightarrow> string \<Rightarrow> bool" where
  "js_includes [] needle = (needle = [])"
| "js_includes (x # xs) needle = (prefix needle (x # xs) \<or> js_includes xs needle)"

text \<open>White space as the regular expression class \<open>\s\<close> sees it, below 256.\<close>

definition is_space :: "char \<Rightarrow> bool" where
  "is_space c = ((of_char c :: nat) \<in> {9, 10, 11, 12, 13, 32, 160})"

text \<open>\<open>s.split(/\s+/)\<close>: the pieces between maximal runs of white space.\<close>

function js_split_ws :: "string \<Rightarrow> string list" where
  "js_split_ws [] = [[]]"
| "js_split_ws (c # cs) =
     (if is_space c then [] # js_split_ws (dropWhile is_space cs)
      else (case js_split_ws cs of
              [] \<Rightarrow> [[c]]
            | w # ws \<Rightarrow> (c # w) # ws))"
  by pat_completeness auto
termination
  by (relation "measure length") (auto simp: length_dropWhile_le less_Suc_eq_le)

text \<open>A number printed in decimal, as a template literal prints a loop index.\<close>

function string_of_nat :: "nat \<Rightarrow> string" where
  "string_of_nat n =
     (if n < 10 then [char_of (48 + n)]
      else string_of_nat (n div 10) @ [char_of (48 + n mod 10)])"
  by pat_completeness auto
termination
  by (relation "measure id") auto

text \<open>
  \<open>Array.prototype.sort\<close> is stable, and with a consistent comparator its result is the
  one of the stable insertion sort below: \<open>x\<close> goes before the first \<open>y\<close> with
  \<open>cmp x y \<le> 0\<close>.
\<close>

fun insert_sorted :: "('a \<Rightarrow> 'a \<Rightarrow> number) \<Rightarrow> 'a \<Rightarrow> 'a list \<Rightarrow> 'a list" where
  "insert_sorted cmp x [] = [x]"
| "insert_sorted cmp x (y # ys) =
     (if cmp x y \<le> 0 then x # y # ys else y # insert_sorted cmp x ys)"

definition array_sort :: "('a \<Rightarrow> 'a \<Rightarrow> number) \<Rightarrow> 'a list \<Rightarrow> 'a list" where
  "array_sort cmp xs = foldr (insert_sorted cmp) xs []"

section \<open>Ingestion: the stored files and the two ingestion paths\<close>

record FileRecord =
  rowId :: nat
  fileName :: string
  summary :: string
  sourceCode :: string
  projectId :: string
  embedding :: "number list option"

record file_store =
  rows :: "FileRecord list"
  nextId :: nat

text \<open>\<open>sourceCodeEmbedding.create\<close> inserts the textual fields; the vector is written afterwards
  by a raw \<open>UPDATE ... WHERE id = $2\<close>.\<close>

definition sourceCodeEmbedding_create ::
  "string \<Rightarrow> string \<Rightarrow> string \<Rightarrow> string \<Rightarrow> file_store \<Rightarrow> FileRecord \<times> file_store" where
  "sourceCodeEmbedding_create fname summ src pid st =
     (let inserted = \<lparr>rowId = nextId st, fileName = fname, summary = summ, sourceCode = src,
                       projectId = pid, embedding = None\<rparr>
      in (inserted, st\<lparr>rows := rows st @ [inserted], nextId := nextId st + 1\<rparr>))"

definition update_embedding :: "number list \<Rightarrow> nat \<Rightarrow> file_store \<Rightarrow> file_store" where
  "update_embedding emb i st =
     st\<lparr>rows := map (\<lambda>r. if rowId r = i then r\<lparr>embedding := Some emb\<rparr> else r) (rows st)\<rparr>"

text \<open>
  What a run of an ingestion loop meets, per loop index: the outcome of summarising and of
  embedding, the draws of \<open>Math.random\<close>, and whether the insert or the update throws.
\<close>

record ingest_env =
  env_summarizeCode :: "nat \<Rightarrow> string \<Rightarrow> js_error + string"
  env_generateEmbedding :: "nat \<Rightarrow> string \<Rightarrow> js_error + number list"
  env_random :: "nat \<Rightarrow> nat \<Rightarrow> number"
  env_create_throws :: "nat \<Rightarrow> bool"
  env_update_throws :: "nat \<Rightarrow> bool"

record ingest_state =
  store :: file_store
  processed :: "string list"

subsection \<open>The project router's background job (createProject)\<close>

definition source_or_empty :: "document \<Rightarrow> string" where
  "source_or_empty d = (case source d of None \<Rightarrow> [] | Some s \<Rightarrow> s)"


definition createProject_fileName :: "nat \<Rightarrow> document \<Rightarrow> string" where
  "createProject_fileName i doc =
     (if source_or_empty doc = [] then ''unknown-file-'' @ string_of_nat i
      else source_or_empty doc)"

definition createProject_summary :: "ingest_env \<Rightarrow> nat \<Rightarrow> document \<Rightarrow> string" where
  "createProject_summary env i doc =
     (case env_summarizeCode env i (pageContent doc) of
        Inr t \<Rightarrow> t
      | Inl err \<Rightarrow> ''Summary unavailable for '' @ createProject_fileName i doc)"

definition createProject_embedding :: "ingest_env \<Rightarrow> nat \<Rightarrow> document \<Rightarrow> number list" where
  "createProject_embedding env i doc =
     (case env_generateEmbedding env i (createProject_summary env i doc) of
        Inr v \<Rightarrow> v
      | Inl err \<Rightarrow> map (env_random env i) [0..<768])"

definition createProject_processFile ::
  "ingest_env \<Rightarrow> string \<Rightarrow> nat \<Rightarrow> document \<Rightarrow> ingest_state \<Rightarrow> ingest_state" where
  "createProject_processFile env pid i doc s =
     (let fname = createProject_fileName i doc;
          src = pageContent doc;
          summ = createProject_summary env i doc;
          emb = createProject_embedding env i doc;
          s1 = s\<lparr>processed := processed s @ [fname]\<rparr>
      in if env_create_throws env i then s1
         else (let (inserted, st) = sourceCodeEmbedding_create fname summ src pid (store s1)
               in if length emb = 768
                  then (if env_update_throws env i then s1\<lparr>store := st\<rparr>
                        else s1\<lparr>store := update_embedding emb (rowId inserted) st\<rparr>)
                  else s1\<lparr>store := st\<rparr>))"



subsection \<open>indexGitHubRepo\<close>

definition indexGitHubRepo_summary :: "ingest_env \<Rightarrow> nat \<Rightarrow> document \<Rightarrow> string" where
  "indexGitHubRepo_summary env idx doc =
     (case env_summarizeCode env idx (pageContent doc) of
        Inr t \<Rightarrow> t
      | Inl err \<Rightarrow> [])"

definition indexGitHubRepo_embedding :: "ingest_env \<Rightarrow> nat \<Rightarrow> document \<Rightarrow> number list" where
  "indexGitHubRepo_embedding env idx doc =
     (case env_generateEmbedding env idx (indexGitHubRepo_summary env idx doc) of
        Inr v \<Rightarrow> v
      | Inl err \<Rightarrow> createFallbackEmbedding (indexGitHubRepo_summary env idx doc))"

definition indexGitHubRepo_processFile ::
  "ingest_env \<Rightarrow> string \<Rightarrow> nat \<Rightarrow> document \<Rightarrow> ingest_state \<Rightarrow> ingest_state" where
  "indexGitHubRepo_processFile env pid idx doc s =
     (let fname = source_or_empty doc;
          src = pageContent doc;
          summ = indexGitHubRepo_summary env idx doc;
          emb = indexGitHubRepo_embedding env idx doc;
          s1 = s\<lparr>processed := processed s @ [fname]\<rparr>
      in if length emb \<noteq> 768 then s1
         else if env_create_throws env idx then s1
         else (let (inserted, st) = sourceCodeEmbedding_create fname summ src pid (store s1)
               in if env_update_throws env idx then s1\<lparr>store := st\<rparr>
                  else s1\<lparr>store := update_embedding emb (rowId inserted) st\<rparr>))"

fun indexGitHubRepo_loop ::
  "ingest_env \<Rightarrow> string \<Rightarrow> nat \<Rightarrow> document list \<Rightarrow> ingest_state \<Rightarrow> ingest_state" where
  "indexGitHubRepo_loop env pid idx [] s = s"
| "indexGitHubRepo_loop env pid idx (doc # docs) s =
     indexGitHubRepo_loop env pid (idx + 1) docs (indexGitHubRepo_processFile env pid idx doc s)"

definition indexGitHubRepo ::
  "ingest_env \<Rightarrow> string \<Rightarrow> document list \<Rightarrow> file_store \<Rightarrow> ingest_state" where
  "indexGitHubRepo env pid rawDocs st =
     (let docs = map (\<lambda>doc. doc\<lparr>source := Some (source_or_empty doc)\<rparr>) rawDocs
      in indexGitHubRepo_loop env pid 0 docs \<lparr>store = st, processed = []\<rparr>)"

section \<open>Answering a question (api/qa/route)\<close>

text \<open>\<open>findMany\<close> with a project filter and an optional \<open>take\<close>, in the table's order.\<close>

definition findMany :: "string \<Rightarrow> nat option \<Rightarrow> FileRecord list \<Rightarrow> FileRecord list" where
  "findMany pid take_opt tbl =
     (let matched = filter (\<lambda>r. projectId r = pid) tbl
      in case take_opt of None \<Rightarrow> matched | Some n \<Rightarrow> take n matched)"

subsection \<open>Semantic mode\<close>

text \<open>
  The similarity is computed in double arithmetic. Its operations are parameters, so that
  whatever they round to, overflow to or make NaN is covered; the stored components and the
  components of the question are finite doubles. A double is truthy when it is neither NaN
  nor zero.
\<close>

datatype double = NaN | NegInfinity | Finite real | PosInfinity

record fp_ops =
  fp_add :: "double \<Rightarrow> double \<Rightarrow> double"
  fp_mul :: "double \<Rightarrow> double \<Rightarrow> double"
  fp_div :: "double \<Rightarrow> double \<Rightarrow> double"
  fp_sqrt :: "double \<Rightarrow> double"

definition truthy :: "double \<Rightarrow> bool" where
  "truthy d = (d \<noteq> NaN \<and> d \<noteq> Finite 0)"

definition semantic_similarity :: "fp_ops \<Rightarrow> number list \<Rightarrow> FileRecord \<Rightarrow> double" where
  "semantic_similarity fp questionEmbedding file =
     (case embedding file of
        None \<Rightarrow> Finite (- 1)
      | Some emb \<Rightarrow>
          if length emb \<noteq> length questionEmbedding then Finite (- 1)
          else (let dot = foldl (\<lambda>sum (v, q). fp_add fp sum (fp_mul fp (Finite v) (Finite q)))
                            (Finite 0) (zip emb questionEmbedding);
                    rootA = fp_sqrt fp
                              (foldl (\<lambda>sum v. fp_add fp sum (fp_mul fp (Finite v) (Finite v)))
                                 (Finite 0) emb);
                    normA = (if truthy rootA then rootA else Finite 0);
                    rootB = fp_sqrt fp
                              (foldl (\<lambda>sum v. fp_add fp sum (fp_mul fp (Finite v) (Finite v)))
                                 (Finite 0) questionEmbedding);
                    normB = (if truthy rootB then rootB else Finite 0)
                in if truthy normA \<and> truthy normB
                   then fp_div fp dot (fp_mul fp normA normB) else Finite (- 1)))"

text \<open>The test with which the route gives a file the similarity \<open>- 1\<close> without computing it.\<close>

definition vector_unusable :: "number list \<Rightarrow> FileRecord \<Rightarrow> bool" where
  "vector_unusable questionEmbedding file =
     (case embedding file of
        None \<Rightarrow> True
      | Some emb \<Rightarrow> length emb \<noteq> length questionEmbedding)"

text \<open>
  The comparator's difference \<open>x - y\<close> of two doubles, as the sort reads it. The
  difference is NaN when an operand is NaN or both are the same infinity, and the sort
  reads NaN as \<open>+0\<close>; otherwise it has the sign of the order of \<open>x\<close> and \<open>y\<close> and is zero
  only when they are equal, since a difference of doubles does not round to zero. Only the
  sign is kept.
\<close>

fun sort_difference :: "double \<Rightarrow> double \<Rightarrow> number" where
  "sort_difference NaN y = 0"
| "sort_difference x NaN = 0"
| "sort_difference PosInfinity PosInfinity = 0"
| "sort_difference NegInfinity NegInfinity = 0"
| "sort_difference PosInfinity y = 1"
| "sort_difference x NegInfinity = 1"
| "sort_difference NegInfinity y = - 1"
| "sort_difference x PosInfinity = - 1"
| "sort_difference (Finite a) (Finite b) = sgn (a - b)"

text \<open>
  With a NaN among the similarities the comparator is not consistent and the language
  leaves the order to the implementation; the model then has the order of the insertion
  sort, and no property is stated for that case.
\<close>

definition semantic_ranked ::
  "fp_ops \<Rightarrow> number list \<Rightarrow> FileRecord list \<Rightarrow> (FileRecord \<times> double) list" where
  "semantic_ranked fp questionEmbedding files =
     array_sort (\<lambda>a b. sort_difference (snd b) (snd a))
       (map (\<lambda>file. (file, semantic_similarity fp questionEmbedding file)) files)"

definition semantic_topFiles :: "fp_ops \<Rightarrow> number list \<Rightarrow> FileRecord list \<Rightarrow> FileRecord list" where
  "semantic_topFiles fp questionEmbedding files =
     map fst (take 5 (semantic_ranked fp questionEmbedding files))"

text \<open>\<open>exceeds d r\<close> is the comparison \<open>d > r\<close> of a double with a finite number.\<close>

definition exceeds :: "double \<Rightarrow> real \<Rightarrow> bool" where
  "exceeds d r = (case d of Finite x \<Rightarrow> r < x | PosInfinity \<Rightarrow> True | _ \<Rightarrow> False)"

subsection \<open>Keyword mode\<close>

definition keyword_words :: "string \<Rightarrow> string list" where
  "keyword_words lowerQuestion = filter (\<lambda>w. length w > 3) (js_split_ws lowerQuestion)"

definition keyword_score :: "string \<Rightarrow> FileRecord \<Rightarrow> number" where
  "keyword_score question file =
     (let lowerQuestion = toLowerCase question;
          lowerFileName = toLowerCase (fileName file);
          lowerSummary = toLowerCase (summary file);
          lowerSourceCode = toLowerCase (sourceCode file);
          score0 = 0;
          score1 = (if js_includes lowerFileName lowerQuestion then score0 + 5 else score0);
          score2 = (if js_includes lowerSummary lowerQuestion then score1 + 3 else score1);
          score3 = (if js_includes lowerSourceCode lowerQuestion then score2 + 2 else score2)
      in foldl (\<lambda>score word.
                  (let a = (if js_includes lowerFileName word then score + 2 else score);
                       b = (if js_includes lowerSummary word then a + 1 else a)
                   in if js_includes lowerSourceCode word then b + 1 / 2 else b))
           score3 (keyword_words lowerQuestion))"

definition keyword_ranked :: "string \<Rightarrow> FileRecord list \<Rightarrow> (FileRecord \<times> number) list" where
  "keyword_ranked question files =
     array_sort (\<lambda>a b. snd b - snd a) (map (\<lambda>file. (file, keyword_score question file)) files)"

definition keyword_topFiles :: "string \<Rightarrow> FileRecord list \<Rightarrow> FileRecord list" where
  "keyword_topFiles question files = map fst (take 5 (keyword_ranked question files))"

subsection \<open>The handler\<close>

text \<open>
  The services of one request: the question's embedding, the generated answer for a
  question and its selected files (the prompt is built from both), whether reading the
  table throws, and the double arithmetic of the platform.
\<close>

record qa_env =
  qa_generateEmbedding :: "string \<Rightarrow> js_error + number list"
  qa_generateAnswer :: "string \<Rightarrow> FileRecord list \<Rightarrow> js_error + string"
  qa_findMany_throws :: bool
  qa_arith :: fp_ops

datatype qa_response =
    Status400
  | Status500
  | Json (answer: string) (referencedFiles: "(string \<times> string \<times> string) list")

definition POST_topFiles :: "qa_env \<Rightarrow> bool \<Rightarrow> string \<Rightarrow> FileRecord list \<Rightarrow> FileRecord list" where
  "POST_topFiles env semanticMode question files =
     (if semanticMode then
        (case qa_generateEmbedding env question of
           Inr questionEmbedding \<Rightarrow> semantic_topFiles (qa_arith env) questionEmbedding files
         | Inl err \<Rightarrow> take 5 files)
      else keyword_topFiles question files)"

definition POST_files :: "bool \<Rightarrow> string \<Rightarrow> FileRecord list \<Rightarrow> FileRecord list" where
  "POST_files semanticMode pid tbl = findMany pid (if semanticMode then None else Some 10) tbl"

definition POST :: "qa_env \<Rightarrow> bool \<Rightarrow> string \<Rightarrow> string \<Rightarrow> FileRecord list \<Rightarrow> qa_response" where
  "POST env semanticMode question pid tbl =
     (if question = [] \<or> pid = [] then Status400
      else if qa_findMany_throws env then Status500
      else (let files = POST_files semanticMode pid tbl
            in if length files = 0
               then Json ''Sorry, no files were found for this project. Please add some files first.'' []
               else (let topFiles = POST_topFiles env semanticMode question files;
                         text = (case qa_generateAnswer env question topFiles of
                                   Inr t \<Rightarrow> t
                                 | Inl err \<Rightarrow> ''Sorry, there was an error generating the answer. Please try again later.'')
                     in Json text (map (\<lambda>file. (fileName file, summary file, sourceCode file))
                                     topFiles))))"

subsection \<open>The keyword extraction of the simple answering route\<close>

definition stopwords :: "string list" where
  "stopwords =
     [''what'', ''where'', ''when'', ''which'', ''about'', ''does'', ''this'', ''that'',
      ''have'', ''from'', ''with'', ''file'', ''code'', ''function'', ''page'', ''button'',
      ''component'']"

definition questionKeywords :: "string \<Rightarrow> string list" where
  "questionKeywords question =
     filter (\<lambda>word. length word > 3 \<and> word \<notin> set stopwords)
       (js_split_ws (toLowerCase question))"

section \<open>The commit puller (lib/github)\<close>

record commit_info =
  hash :: string
  message :: string
  author :: string
  date :: string
  authorAvatar :: "string option"


text \<open>
  The pull is modelled on the table of commits; the pause of two seconds between two
  commits changes no stored value and is not part of the state.
\<close>









section \<open>Concrete runs and the specification's wording\<close>

text \<open>An ingestion run whose embedding service answers three values for every file, and one
  that answers 768.\<close>

definition env_short_vector :: ingest_env where
  "env_short_vector =
     \<lparr>env_summarizeCode = (\<lambda>i code. Inr ''A summary.''),
      env_generateEmbedding = (\<lambda>i summ. Inr [1, 2, 3]),
      env_random = (\<lambda>i j. 0),
      env_create_throws = (\<lambda>i. False),
      env_update_throws = (\<lambda>i. False)\<rparr>"


definition empty_store :: file_store where
  "empty_store = \<lparr>rows = [], nextId = 0\<rparr>"

definition doc_readme :: document where
  "doc_readme = \<lparr>pageContent = ''# Demo'', source = Some ''README.md''\<rparr>"








definition init_state :: ingest_state where
  "init_state = \<lparr>store = empty_store, processed = []\<rparr>"

text \<open>
  Keyword scoring in the specification's words, over a given list of tokens: 5, 3 and 2 for
  the whole question in the file name, the summary and the source text, and 2, 1 and one
  half for each token. The selection the specification describes takes the tokens without
  the stop words.
\<close>

definition spec_keyword_score :: "string list \<Rightarrow> string \<Rightarrow> FileRecord \<Rightarrow> number" where
  "spec_keyword_score tokens question file =
     (if js_includes (toLowerCase (fileName file)) (toLowerCase question) then 5 else 0)
     + (if js_includes (toLowerCase (summary file)) (toLowerCase question) then 3 else 0)
     + (if js_includes (toLowerCase (sourceCode file)) (toLowerCase question) then 2 else 0)
     + (\<Sum>w\<leftarrow>tokens.
          (if js_includes (toLowerCase (fileName file)) w then 2 else 0)
          + (if js_includes (toLowerCase (summary file)) w then 1 else 0)
          + (if js_includes (toLowerCase (sourceCode file)) w then 1 / 2 else 0))"

definition spec_keyword_topFiles :: "string \<Rightarrow> FileRecord list \<Rightarrow> FileRecord list" where
  "spec_keyword_topFiles question files =
     map fst (take 5 (sort_key (\<lambda>p. - snd p)
       (map (\<lambda>file. (file, spec_keyword_score (questionKeywords question) question file))
          files)))"

text \<open>
  Arithmetic without rounding, which double arithmetic is on the small integers of the
  concrete runs; an operation on anything but finite values is left as NaN.
\<close>

definition exact_ops :: fp_ops where
  "exact_ops =
     \<lparr>fp_add = (\<lambda>a b. case a of Finite x \<Rightarrow> (case b of Finite y \<Rightarrow> Finite (x + y) | _ \<Rightarrow> NaN)
                          | _ \<Rightarrow> NaN),
      fp_mul = (\<lambda>a b. case a of Finite x \<Rightarrow> (case b of Finite y \<Rightarrow> Finite (x * y) | _ \<Rightarrow> NaN)
                          | _ \<Rightarrow> NaN),
      fp_div = (\<lambda>a b. case a of
                          Finite x \<Rightarrow> (case b of
                                         Finite y \<Rightarrow> if y = 0 then NaN else Finite (x / y)
                                       | _ \<Rightarrow> NaN)
                        | _ \<Rightarrow> NaN),
      fp_sqrt = (\<lambda>a. case a of Finite x \<Rightarrow> if x < 0 then NaN else Finite (sqrt x) | _ \<Rightarrow> NaN)\<rparr>"

text \<open>
  The key by which the comparator of semantic mode orders doubles that are not NaN: it
  grows as the double falls.
\<close>

definition desc_key :: "double \<Rightarrow> nat \<times> real" where
  "desc_key d =
     (case d of
        PosInfinity \<Rightarrow> (0, 0)
      | Finite x \<Rightarrow> (1, - x)
      | NegInfinity \<Rightarrow> (2, 0)
      | NaN \<Rightarrow> (3, 0))"

text \<open>Stored files for concrete runs.\<close>

definition file_what :: FileRecord where
  "file_what = \<lparr>rowId = 1, fileName = ''what.md'', summary = ''Notes.'', sourceCode = ''todo'',
                  projectId = ''p1'', embedding = None\<rparr>"

definition file_parser :: FileRecord where
  "file_parser = \<lparr>rowId = 2, fileName = ''b.ts'', summary = ''A parser.'', sourceCode = ''x'',
                    projectId = ''p1'', embedding = Some [- 1, 0]\<rparr>"

definition file_zero :: FileRecord where
  "file_zero = \<lparr>rowId = 3, fileName = ''c.ts'', summary = ''Empty.'', sourceCode = ''y'',
                  projectId = ''p1'', embedding = Some [0, 0]\<rparr>"

definition file_near :: FileRecord where
  "file_near = \<lparr>rowId = 4, fileName = ''d.ts'', summary = ''Close.'', sourceCode = ''z'',
                  projectId = ''p1'', embedding = Some [1, 0]\<rparr>"

definition qa_env_plain :: qa_env where
  "qa_env_plain =
     \<lparr>qa_generateEmbedding = (\<lambda>q. Inr [1, 0]),
      qa_generateAnswer = (\<lambda>q files. Inr ''An answer.''),
      qa_findMany_throws = False,
      qa_arith = exact_ops\<rparr>"

definition filler_rows :: "FileRecord list" where
  "filler_rows =
     map (\<lambda>i. \<lparr>rowId = 10 + i, fileName = ''f.txt'', summary = ''s'', sourceCode = ''c'',
                projectId = ''p1'', embedding = None\<rparr>) [0..<10]"

definition file_eleventh :: FileRecord where
  "file_eleventh = \<lparr>rowId = 99, fileName = ''tokenizer.ts'', summary = ''tokenizer'',
                      sourceCode = ''tokenizer'', projectId = ''p1'', embedding = None\<rparr>"











section \<open>The retry loops, unfolded\<close>


lemma generateEmbedding_loop_step:
  "retries < MAX_RETRIES \<Longrightarrow> generateEmbedding_loop api t retries =
     (case embed_try api retries t of
        Inr vs \<Rightarrow> \<lparr>result = vs, calls = [embed_request_for t], delays = []\<rparr>
      | Inl _ \<Rightarrow>
          (if retries + 1 < MAX_RETRIES then
             (let r = generateEmbedding_loop api t (retries + 1)
              in r\<lparr>calls := embed_request_for t # calls r,
                   delays := (2 ^ (retries + 1) * 1000) # delays r\<rparr>)
           else \<lparr>result = fallbackEmbedding t, calls = [embed_request_for t], delays = []\<rparr>))"
  by (subst generateEmbedding_loop.simps) simp

lemma generateEmbedding_unfold:
  "generateEmbedding api t =
     (case embed_try api 0 t of
        Inr vs \<Rightarrow> \<lparr>result = vs, calls = [embed_request_for t], delays = []\<rparr>
      | Inl _ \<Rightarrow>
         (case embed_try api 1 t of
            Inr vs \<Rightarrow> \<lparr>result = vs, calls = [embed_request_for t, embed_request_for t],
                        delays = [2000]\<rparr>
          | Inl _ \<Rightarrow>
             (case embed_try api 2 t of
                Inr vs \<Rightarrow> \<lparr>result = vs,
                   calls = [embed_request_for t, embed_request_for t, embed_request_for t],
                   delays = [2000, 4000]\<rparr>
              | Inl _ \<Rightarrow> \<lparr>result = fallbackEmbedding t,
                   calls = [embed_request_for t, embed_request_for t, embed_request_for t],
                   delays = [2000, 4000]\<rparr>)))"
proof -
  have l2: "generateEmbedding_loop api t 2 =
     (case embed_try api 2 t of
        Inr vs \<Rightarrow> \<lparr>result = vs, calls = [embed_request_for t], delays = []\<rparr>
      | Inl _ \<Rightarrow> \<lparr>result = fallbackEmbedding t, calls = [embed_request_for t], delays = []\<rparr>)"
    using generateEmbedding_loop_step [of 2 api t] by (simp cong: sum.case_cong)
  have l1: "generateEmbedding_loop api t 1 =
     (case embed_try api 1 t of
        Inr vs \<Rightarrow> \<lparr>result = vs, calls = [embed_request_for t], delays = []\<rparr>
      | Inl _ \<Rightarrow> (let r = generateEmbedding_loop api t 2
                 in r\<lparr>calls := embed_request_for t # calls r, delays := 4000 # delays r\<rparr>))"
    using generateEmbedding_loop_step [of 1 api t]
    by (simp del: One_nat_def add: nat_1_add_1 cong: sum.case_cong)
  have l0: "generateEmbedding_loop api t 0 =
     (case embed_try api 0 t of
        Inr vs \<Rightarrow> \<lparr>result = vs, calls = [embed_request_for t], delays = []\<rparr>
      | Inl _ \<Rightarrow> (let r = generateEmbedding_loop api t 1
                 in r\<lparr>calls := embed_request_for t # calls r, delays := 2000 # delays r\<rparr>))"
    using generateEmbedding_loop_step [of 0 api t]
    by (simp del: One_nat_def cong: sum.case_cong)
  show ?thesis
    unfolding generateEmbedding_def l0 l1 l2 by (simp add: Let_def split: sum.splits)
qed



lemma length_fallbackEmbedding: "length (fallbackEmbedding t) = 768"
  by (simp add: fallbackEmbedding_def)

lemma length_createFallbackEmbedding: "length (createFallbackEmbedding t) = 768"
  by (simp add: createFallbackEmbedding_def)


lemma generateEmbedding_exhausted:
  assumes "\<forall>k<MAX_RETRIES. isl (embed_try api k t)"
  shows "generateEmbedding api t =
     \<lparr>result = fallbackEmbedding t,
      calls = [embed_request_for t, embed_request_for t, embed_request_for t],
      delays = [2000, 4000]\<rparr>"
proof -
  have "isl (embed_try api 0 t)" "isl (embed_try api 1 t)" "isl (embed_try api 2 t)"
    using assms by simp_all
  then show ?thesis
    by (auto simp: generateEmbedding_unfold isl_def)
qed







section \<open>The fallback vectors\<close>

text \<open>
  C1. The hash-seeded fallbacks depend on the text alone. Two runs of the client's
  \<open>generateEmbedding\<close> on the same text that both exhaust their three attempts, against
  services that may fail in different ways, return the same vector, of 768 components; and
  the pipeline's wrapper, whatever the exception it catches, returns the same
  \<open>createFallbackEmbedding\<close> vector of 768 components.
\<close>

theorem fallback_embedding_deterministic:
  assumes "\<forall>k<MAX_RETRIES. isl (embed_try api1 k s)"
      and "\<forall>k<MAX_RETRIES. isl (embed_try api2 k s)"
  shows "result (generateEmbedding api1 s) = result (generateEmbedding api2 s)
       \<and> length (result (generateEmbedding api1 s)) = 768
       \<and> pipeline_generateEmbedding (\<lambda>t. Inl e1) s = pipeline_generateEmbedding (\<lambda>t. Inl e2) s
       \<and> pipeline_generateEmbedding (\<lambda>t. Inl e1) s = createFallbackEmbedding s
       \<and> length (createFallbackEmbedding s) = 768"
  using generateEmbedding_exhausted [OF assms(1)] generateEmbedding_exhausted [OF assms(2)]
  by (simp add: length_fallbackEmbedding pipeline_generateEmbedding_def
        length_createFallbackEmbedding)

theorem fallback_embedding_deterministic_witness:
  "isl (embed_try api_always_throws 0 ''abc'')
   \<and> isl (embed_try api_always_throws 1 ''abc'')
   \<and> isl (embed_try api_always_throws 2 ''abc'')
   \<and> isl (embed_try api_no_embedding 0 ''abc'')
   \<and> isl (embed_try api_no_embedding 1 ''abc'')
   \<and> isl (embed_try api_no_embedding 2 ''abc'')
   \<and> result (generateEmbedding api_always_throws ''abc'')
       = result (generateEmbedding api_no_embedding ''abc'')
   \<and> length (result (generateEmbedding api_always_throws ''abc'')) = 768
   \<and> pipeline_generateEmbedding (\<lambda>t. Inl (Error ''quota'')) ''abc''
       = pipeline_generateEmbedding (\<lambda>t. Inl (Error ''network'')) ''abc''"
proof -
  have h1: "\<forall>k<MAX_RETRIES. isl (embed_try api_always_throws k ''abc'')"
    by (simp add: embed_try_def api_always_throws_def)
  have h2: "\<forall>k<MAX_RETRIES. isl (embed_try api_no_embedding k ''abc'')"
    by (simp add: embed_try_def api_no_embedding_def)
  have "isl (embed_try api_always_throws 0 ''abc'')" "isl (embed_try api_always_throws 1 ''abc'')"
    "isl (embed_try api_always_throws 2 ''abc'')" "isl (embed_try api_no_embedding 0 ''abc'')"
    "isl (embed_try api_no_embedding 1 ''abc'')" "isl (embed_try api_no_embedding 2 ''abc'')"
    using h1 h2 by simp_all
  then show ?thesis
    using fallback_embedding_deterministic [OF h1 h2, of "Error ''quota''" "Error ''network''"]
    by blast
qed

section \<open>The embedding client\<close>




section \<open>Retry and backoff\<close>




section \<open>Loading a repository\<close>

text \<open>
  C3. \<open>loadGitHubRepository\<close> first loads with the options of branch \<open>main\<close>; when that
  succeeds its documents are the result and nothing else is tried. When it throws, whatever
  the exception, the second attempt uses the same options with the branch changed to
  \<open>master\<close>, and its documents are the result when it succeeds. When both throw, the
  result is exactly one document, the placeholder README. The function has no failing
  outcome.
\<close>

theorem loadGitHubRepository_branch_fallback:
  "branch (main_options tok rec) = ''main''
   \<and> master_options tok rec = (main_options tok rec)\<lparr>branch := ''master''\<rparr>
   \<and> hd (calls (loadGitHubRepository load url tok rec)) = main_options tok rec
   \<and> (\<forall>docs. load url (main_options tok rec) = Inr docs \<longrightarrow>
         loadGitHubRepository load url tok rec
           = \<lparr>result = docs, calls = [main_options tok rec], delays = []\<rparr>)
   \<and> (isl (load url (main_options tok rec)) \<longrightarrow>
         calls (loadGitHubRepository load url tok rec)
           = [main_options tok rec, master_options tok rec]
         \<and> (\<forall>docs. load url (master_options tok rec) = Inr docs \<longrightarrow>
               result (loadGitHubRepository load url tok rec) = docs)
         \<and> (isl (load url (master_options tok rec)) \<longrightarrow>
               result (loadGitHubRepository load url tok rec) = [placeholder_readme url]
               \<and> length (result (loadGitHubRepository load url tok rec)) = 1
               \<and> source (placeholder_readme url) = Some ''README.md''))"
  by (auto simp: loadGitHubRepository_def main_options_def master_options_def
        placeholder_readme_def isl_def split: sum.splits)

text \<open>A repository with a \<open>master\<close> branch only, and one that cannot be loaded at all.\<close>

lemma last_split_widgets:
  "last (split_on CHR ''/'' ''https://github.com/acme/widgets'') = ''widgets''"
  by simp

theorem loadGitHubRepository_branch_fallback_witness:
  "isl (load_only_master ''https://github.com/acme/widgets'' (main_options None None))
   \<and> result (loadGitHubRepository load_only_master ''https://github.com/acme/widgets'' None None)
       = [\<lparr>pageContent = ''hello'', source = Some ''index.js''\<rparr>]
   \<and> isl (load_nothing ''https://github.com/acme/widgets'' (main_options None None))
   \<and> isl (load_nothing ''https://github.com/acme/widgets'' (master_options None None))
   \<and> result (loadGitHubRepository load_nothing ''https://github.com/acme/widgets'' None None)
       = [\<lparr>pageContent = ''# widgets'' @ [CHR 0x0A, CHR 0x0A]
            @ ''This repository appears to be empty or inaccessible. Please add some files to this repository.'',
           source = Some ''README.md''\<rparr>]"
proof -
  have m: "isl (load_only_master ''https://github.com/acme/widgets'' (main_options None None))"
    "load_only_master ''https://github.com/acme/widgets'' (master_options None None)
       = Inr [\<lparr>pageContent = ''hello'', source = Some ''index.js''\<rparr>]"
    by (simp_all add: load_only_master_def main_options_def master_options_def)
  have n: "isl (load_nothing ''https://github.com/acme/widgets'' (main_options None None))"
    "isl (load_nothing ''https://github.com/acme/widgets'' (master_options None None))"
    by (simp_all add: load_nothing_def)
  have p: "placeholder_readme ''https://github.com/acme/widgets''
       = \<lparr>pageContent = ''# widgets'' @ [CHR 0x0A, CHR 0x0A]
            @ ''This repository appears to be empty or inaccessible. Please add some files to this repository.'',
           source = Some ''README.md''\<rparr>"
    unfolding placeholder_readme_def last_split_widgets by simp
  show ?thesis
    using m n
      loadGitHubRepository_branch_fallback
        [of None None load_only_master "''https://github.com/acme/widgets''"]
      loadGitHubRepository_branch_fallback
        [of None None load_nothing "''https://github.com/acme/widgets''"]
    unfolding p by simp
qed

section \<open>A vector of the wrong length\<close>

text \<open>
  C4, as the code has it. In the project router's background job a file whose vector has
  not exactly 768 components, and whose insert does not throw, gets its row with file name,
  summary and source text and without a vector. In \<open>indexGitHubRepo\<close> such a file is
  skipped as a whole: the store is left as it was.
\<close>

theorem invalid_vector_handling:
  "(length (createProject_embedding env i doc) \<noteq> 768 \<and> \<not> env_create_throws env i \<longrightarrow>
      store (createProject_processFile env pid i doc s)
        = \<lparr>rows = rows (store s)
             @ [\<lparr>rowId = nextId (store s),
                 fileName = createProject_fileName i doc,
                 summary = createProject_summary env i doc,
                 sourceCode = pageContent doc,
                 projectId = pid,
                 embedding = None\<rparr>],
           nextId = nextId (store s) + 1\<rparr>)
   \<and> (length (indexGitHubRepo_embedding env idx doc) \<noteq> 768 \<longrightarrow>
        store (indexGitHubRepo_processFile env pid idx doc s) = store s)"
  by (simp add: createProject_processFile_def indexGitHubRepo_processFile_def
        sourceCodeEmbedding_create_def Let_def)

text \<open>With an embedding service that answers three values.\<close>

theorem invalid_vector_handling_witness:
  "length (createProject_embedding env_short_vector 0 doc_readme) = 3
   \<and> rows (store (createProject_processFile env_short_vector ''p1'' 0 doc_readme init_state))
       = [\<lparr>rowId = 0, fileName = ''README.md'', summary = ''A summary.'',
           sourceCode = ''# Demo'', projectId = ''p1'', embedding = None\<rparr>]
   \<and> length (indexGitHubRepo_embedding env_short_vector 0 doc_readme) = 3
   \<and> rows (store (indexGitHubRepo_processFile env_short_vector ''p1'' 0 doc_readme init_state)) = []"
proof -
  have e: "createProject_embedding env_short_vector 0 doc_readme = [1, 2, 3]"
    "indexGitHubRepo_embedding env_short_vector 0 doc_readme = [1, 2, 3]"
    "\<not> env_create_throws env_short_vector 0"
    by (simp_all add: createProject_embedding_def indexGitHubRepo_embedding_def
          env_short_vector_def)
  have f: "createProject_fileName 0 doc_readme = ''README.md''"
    "createProject_summary env_short_vector 0 doc_readme = ''A summary.''"
    "pageContent doc_readme = ''# Demo''"
    by (simp_all add: createProject_fileName_def createProject_summary_def source_or_empty_def
          doc_readme_def env_short_vector_def)
  show ?thesis
    using invalid_vector_handling [of env_short_vector 0 doc_readme "''p1''" init_state 0]
    by (simp add: e f init_state_def empty_store_def)
qed

text \<open>
  C4 as stated fails on \<open>indexGitHubRepo\<close>: the file whose vector has three components
  leaves no row, with or without its textual fields.
\<close>

theorem invalid_vector_row_counterexample:
  "length (indexGitHubRepo_embedding env_short_vector 0 doc_readme) \<noteq> 768
   \<and> rows (store (indexGitHubRepo env_short_vector ''p1'' [doc_readme] empty_store)) = []"
  by (simp add: indexGitHubRepo_def indexGitHubRepo_processFile_def
        indexGitHubRepo_embedding_def env_short_vector_def empty_store_def Let_def)


section \<open>The order of ingestion\<close>

lemma insert_sorted_insort_key:
  assumes "\<And>a b. cmp a b \<le> 0 \<longleftrightarrow> k a \<le> k b"
  shows "insert_sorted cmp x ys = insort_key k x ys"
  by (induction ys) (simp_all add: assms)

lemma array_sort_sort_key:
  assumes "\<And>a b. cmp a b \<le> 0 \<longleftrightarrow> k a \<le> k b"
  shows "array_sort cmp xs = sort_key k xs"
proof -
  have "insert_sorted cmp = insort_key k"
    by (intro ext) (rule insert_sorted_insort_key [OF assms])
  then show ?thesis
    by (simp add: array_sort_def sort_key_def)
qed




















section \<open>Selecting files for a question\<close>

lemma array_sort_by_score:
  "array_sort (\<lambda>a b. snd b - snd a) xs = sort_key (\<lambda>p. - snd p) (xs :: ('a \<times> number) list)"
  by (rule array_sort_sort_key) simp

lemma keyword_ranked_sort_key:
  "keyword_ranked q files
     = sort_key (\<lambda>p. - snd p) (map (\<lambda>file. (file, keyword_score q file)) files)"
  by (simp add: keyword_ranked_def array_sort_by_score)

lemma foldl_token_score:
  "foldl (\<lambda>score word.
            if R word
            then (if Q word then (if P word then score + 2 else score) + 1
                  else if P word then score + 2 else score) + 1 / 2
            else if Q word then (if P word then score + 2 else score) + 1
                 else if P word then score + 2 else score) s ws
     = s + (\<Sum>w\<leftarrow>ws. (if P w then 2 else 0) + (if Q w then 1 else 0)
                       + (if R w then 1 / 2 else (0 :: number)))"
  by (induction ws arbitrary: s) simp_all

lemma keyword_score_spec:
  "keyword_score q f = spec_keyword_score (keyword_words (toLowerCase q)) q f"
  unfolding keyword_score_def Let_def
  by (simp add: foldl_token_score spec_keyword_score_def)

lemma stable_by_score:
  "filter (\<lambda>p. snd p = k) (sort_key (\<lambda>p. - snd p) (xs :: ('a \<times> number) list))
     = filter (\<lambda>p. snd p = k) xs"
  using sort_key_stable [of "\<lambda>p. - snd p" "- k" xs] by simp

lemma set_sort_by_score_scored:
  "p \<in> set (sort_key (\<lambda>p. - snd p) (map (\<lambda>file. (file, sc file)) files))
     \<Longrightarrow> snd p = sc (fst p) \<and> fst p \<in> set files"
  by auto

lemma mset_fst_scored:
  "mset (map fst (sort_key (\<lambda>p. - snd p) (map (\<lambda>file. (file, sc file)) files))) = mset files"
proof -
  have "mset (map fst (sort_key (\<lambda>p. - snd p) (map (\<lambda>file. (file, sc file)) files)))
      = image_mset fst (mset (sort_key (\<lambda>p. - snd p) (map (\<lambda>file. (file, sc file)) files)))"
    by simp
  also have "\<dots> = image_mset fst (mset (map (\<lambda>file. (file, sc file)) files))"
    by simp
  also have "\<dots> = mset files"
    by (simp add: image_mset.compositionality comp_def)
  finally show ?thesis .
qed

text \<open>
  C5, as the code has it. Keyword mode takes as tokens the pieces of the lower-cased
  question between runs of white space that are longer than 3 characters, with no stop word
  removed. The score of a file is 5, 3 and 2 for the whole question in its file name, summary
  and source text, plus 2, 1 and one half for each token there. The selection is the first
  5 of the files ranked by score: the ranking is a permutation of the fetched files, its
  scores descend, and the files of one score keep their order of fetching.
\<close>

theorem keyword_selection:
  "keyword_words (toLowerCase q) = filter (\<lambda>w. 3 < length w) (js_split_ws (toLowerCase q))
   \<and> keyword_score q f = spec_keyword_score (keyword_words (toLowerCase q)) q f
   \<and> keyword_topFiles q files = map fst (take 5 (keyword_ranked q files))
   \<and> mset (map fst (keyword_ranked q files)) = mset files
   \<and> (\<forall>p \<in> set (keyword_ranked q files). snd p = keyword_score q (fst p))
   \<and> sorted (map (\<lambda>p. - snd p) (keyword_ranked q files))
   \<and> (\<forall>k. filter (\<lambda>p. snd p = k) (keyword_ranked q files)
            = filter (\<lambda>p. snd p = k) (map (\<lambda>file. (file, keyword_score q file)) files))
   \<and> length (keyword_topFiles q files) = min 5 (length files)"
proof -
  have a: "keyword_words (toLowerCase q)
      = filter (\<lambda>w. 3 < length w) (js_split_ws (toLowerCase q))"
    by (simp add: keyword_words_def)
  have b: "keyword_score q f = spec_keyword_score (keyword_words (toLowerCase q)) q f"
    by (rule keyword_score_spec)
  have c: "keyword_topFiles q files = map fst (take 5 (keyword_ranked q files))"
    by (simp add: keyword_topFiles_def)
  have d: "mset (map fst (keyword_ranked q files)) = mset files"
    unfolding keyword_ranked_sort_key by (rule mset_fst_scored)
  have e: "\<forall>p \<in> set (keyword_ranked q files). snd p = keyword_score q (fst p)"
    unfolding keyword_ranked_sort_key using set_sort_by_score_scored by blast
  have f: "sorted (map (\<lambda>p. - snd p) (keyword_ranked q files))"
    unfolding keyword_ranked_sort_key by (rule sorted_sort_key)
  have g: "\<forall>k. filter (\<lambda>p. snd p = k) (keyword_ranked q files)
            = filter (\<lambda>p. snd p = k) (map (\<lambda>file. (file, keyword_score q file)) files)"
    unfolding keyword_ranked_sort_key by (simp only: stable_by_score) simp
  have "length (keyword_ranked q files) = length files"
    by (simp add: keyword_ranked_sort_key)
  then have h: "length (keyword_topFiles q files) = min 5 (length files)"
    by (simp add: keyword_topFiles_def min.commute)
  from a b c d e f g h show ?thesis by blast
qed


text \<open>Two files and a question with a stop word.\<close>

theorem keyword_selection_witness:
  "keyword_words (toLowerCase ''What parser'') = [''what'', ''parser'']
   \<and> keyword_score ''What parser'' file_what = 2
   \<and> keyword_score ''What parser'' file_parser = 1
   \<and> keyword_topFiles ''What parser'' [file_parser, file_what] = [file_what, file_parser]"
proof -
  have "spec_keyword_score [''what'', ''parser''] ''What parser'' file_what = 2"
    "spec_keyword_score [''what'', ''parser''] ''What parser'' file_parser = 1"
    "js_split_ws (toLowerCase ''What parser'') = [''what'', ''parser'']"
    "keyword_topFiles ''What parser'' [file_parser, file_what] = [file_what, file_parser]"
    by code_simp+
  then show ?thesis
    using keyword_selection [of "''What parser''" file_what "[file_parser, file_what]"]
      keyword_selection [of "''What parser''" file_parser "[file_parser, file_what]"]
    by simp
qed

text \<open>
  C5 as stated fails: the answering route removes no stop word. For the question
  \<open>what parser\<close> the code scores the token \<open>what\<close> in the name \<open>what.md\<close> and ranks this
  file first; the selection of the statement, without the stop word \<open>what\<close>, ranks it
  last.
\<close>

theorem keyword_stopwords_counterexample:
  "keyword_words (toLowerCase ''what parser'') = [''what'', ''parser'']
   \<and> questionKeywords ''what parser'' = [''parser'']
   \<and> keyword_topFiles ''what parser'' [file_what, file_parser] = [file_what, file_parser]
   \<and> spec_keyword_topFiles ''what parser'' [file_what, file_parser] = [file_parser, file_what]"
  by code_simp

subsection \<open>Semantic mode\<close>

lemma insert_sorted_insort_key_on:
  assumes "\<And>y. y \<in> set ys \<Longrightarrow> cmp x y \<le> 0 \<longleftrightarrow> k x \<le> k y"
  shows "insert_sorted cmp x ys = insort_key k x ys"
  using assms by (induction ys) simp_all

lemma array_sort_sort_key_on:
  assumes "\<And>a b. a \<in> set xs \<Longrightarrow> b \<in> set xs \<Longrightarrow> cmp a b \<le> 0 \<longleftrightarrow> k a \<le> k b"
  shows "array_sort cmp xs = sort_key k xs"
  using assms
proof (induction xs)
  case Nil
  then show ?case by (simp add: array_sort_def)
next
  case (Cons x xs)
  have ih: "array_sort cmp xs = sort_key k xs"
    using Cons by simp
  have "array_sort cmp (x # xs) = insert_sorted cmp x (sort_key k xs)"
    using ih by (simp add: array_sort_def)
  also have "\<dots> = insort_key k x (sort_key k xs)"
    by (rule insert_sorted_insort_key_on) (simp add: Cons.prems)
  finally show ?case by simp
qed

lemma mset_insert_sorted: "mset (insert_sorted cmp x ys) = add_mset x (mset ys)"
  by (induction ys) simp_all

lemma mset_array_sort: "mset (array_sort cmp xs) = mset xs"
  by (induction xs) (simp_all add: array_sort_def mset_insert_sorted)

lemma sort_difference_desc_key:
  "x \<noteq> NaN \<Longrightarrow> y \<noteq> NaN \<Longrightarrow> sort_difference y x \<le> 0 \<longleftrightarrow> desc_key x \<le> desc_key y"
  by (cases x; cases y) (simp_all add: desc_key_def sgn_if)

lemma desc_key_inj: "desc_key x = desc_key y \<longleftrightarrow> x = y"
  by (cases x; cases y) (simp_all add: desc_key_def)

lemma exceeds_desc_key: "exceeds d (- 1) \<Longrightarrow> desc_key d < desc_key (Finite (- 1))"
  by (cases d) (simp_all add: exceeds_def desc_key_def)

lemma semantic_ranked_sort_key:
  assumes "\<forall>g \<in> set files. semantic_similarity fp qe g \<noteq> NaN"
  shows "semantic_ranked fp qe files
     = sort_key (\<lambda>p. desc_key (snd p)) (map (\<lambda>file. (file, semantic_similarity fp qe file)) files)"
  unfolding semantic_ranked_def
  by (rule array_sort_sort_key_on) (use assms in \<open>auto simp: sort_difference_desc_key\<close>)

lemma semantic_similarity_unusable:
  "vector_unusable qe f \<Longrightarrow> semantic_similarity fp qe f = Finite (- 1)"
  by (auto simp: vector_unusable_def semantic_similarity_def split: option.splits)

lemma sorted_key_nth:
  assumes "sorted (map k xs)" and "i < length xs" "j < length xs" "k (xs ! j) < k (xs ! i)"
  shows "j < (i :: nat)"
proof (rule ccontr)
  assume "\<not> j < i"
  then have "i \<le> j" by simp
  then have "map k xs ! i \<le> map k xs ! j"
    using assms(1,3) by (simp add: sorted_iff_nth_mono)
  then show False
    using assms(2-4) by simp
qed

lemma set_semantic_ranked:
  "p \<in> set (semantic_ranked fp qe files) \<Longrightarrow> snd p = semantic_similarity fp qe (fst p)"
proof -
  assume "p \<in> set (semantic_ranked fp qe files)"
  then have "p \<in># mset (semantic_ranked fp qe files)"
    by simp
  then have "p \<in> set (map (\<lambda>file. (file, semantic_similarity fp qe file)) files)"
    unfolding semantic_ranked_def mset_array_sort by simp
  then show ?thesis by auto
qed

text \<open>
  C6, as the code has it. A file without a vector, or with a vector whose length is not the
  question vector's, has similarity \<open>- 1\<close>, whatever the arithmetic. The ranking is a
  permutation of the fetched files. When no similarity is NaN, a file of that kind is
  never before a file whose computed similarity is greater than \<open>- 1\<close>, so when it is
  among the first 5 every such file is; and files of equal computed similarity, \<open>- 1\<close>
  included, keep their order of fetching. This holds for every double arithmetic: rounding,
  overflow and underflow are those of the parameter.
\<close>

theorem semantic_unusable_never_above:
  "(vector_unusable qe f \<longrightarrow> semantic_similarity fp qe f = Finite (- 1))
   \<and> semantic_topFiles fp qe files = map fst (take 5 (semantic_ranked fp qe files))
   \<and> mset (map fst (semantic_ranked fp qe files)) = mset files
   \<and> ((\<forall>g \<in> set files. semantic_similarity fp qe g \<noteq> NaN) \<longrightarrow>
        (\<forall>i j. i < length (semantic_ranked fp qe files) \<and> j < length (semantic_ranked fp qe files)
           \<and> vector_unusable qe (fst (semantic_ranked fp qe files ! i))
           \<and> exceeds (semantic_similarity fp qe (fst (semantic_ranked fp qe files ! j))) (- 1)
           \<longrightarrow> j < i \<and> (i < 5 \<longrightarrow> j < 5))
        \<and> (\<forall>k. filter (\<lambda>p. snd p = k) (semantic_ranked fp qe files)
              = filter (\<lambda>p. snd p = k)
                  (map (\<lambda>file. (file, semantic_similarity fp qe file)) files)))"
proof -
  let ?scored = "map (\<lambda>file. (file, semantic_similarity fp qe file)) files"
  let ?ranked = "semantic_ranked fp qe files"
  have a: "vector_unusable qe f \<longrightarrow> semantic_similarity fp qe f = Finite (- 1)"
    by (simp add: semantic_similarity_unusable)
  have b: "semantic_topFiles fp qe files = map fst (take 5 ?ranked)"
    by (simp add: semantic_topFiles_def)
  have "mset (map fst ?ranked) = image_mset fst (mset ?scored)"
    by (simp add: semantic_ranked_def mset_array_sort)
  also have "\<dots> = mset files"
    by (simp add: image_mset.compositionality comp_def)
  finally have c: "mset (map fst ?ranked) = mset files" .
  have d: "(\<forall>i j. i < length ?ranked \<and> j < length ?ranked
           \<and> vector_unusable qe (fst (?ranked ! i))
           \<and> exceeds (semantic_similarity fp qe (fst (?ranked ! j))) (- 1)
           \<longrightarrow> j < i \<and> (i < 5 \<longrightarrow> j < 5))
        \<and> (\<forall>k. filter (\<lambda>p. snd p = k) ?ranked = filter (\<lambda>p. snd p = k) ?scored)"
    if h: "\<forall>g \<in> set files. semantic_similarity fp qe g \<noteq> NaN"
  proof -
    note r = semantic_ranked_sort_key [OF h]
    have s: "sorted (map (\<lambda>p. desc_key (snd p)) ?ranked)"
      unfolding r by (rule sorted_sort_key)
    have d1: "j < i \<and> (i < 5 \<longrightarrow> j < 5)"
      if g: "i < length ?ranked \<and> j < length ?ranked
           \<and> vector_unusable qe (fst (?ranked ! i))
           \<and> exceeds (semantic_similarity fp qe (fst (?ranked ! j))) (- 1)" for i j
    proof -
      have "snd (?ranked ! i) = Finite (- 1)"
        using g set_semantic_ranked [of "?ranked ! i" fp qe files]
        by (simp add: semantic_similarity_unusable)
      moreover have "exceeds (snd (?ranked ! j)) (- 1)"
        using g set_semantic_ranked [of "?ranked ! j" fp qe files] by simp
      ultimately have "desc_key (snd (?ranked ! j)) < desc_key (snd (?ranked ! i))"
        by (simp add: exceeds_desc_key)
      then have "j < i"
        using sorted_key_nth [OF s, of i j] g by simp
      then show ?thesis by simp
    qed
    have d2: "filter (\<lambda>p. snd p = k) ?ranked = filter (\<lambda>p. snd p = k) ?scored" for k
      using sort_key_stable [of "\<lambda>p. desc_key (snd p)" "desc_key k" ?scored]
      unfolding r by (simp add: desc_key_inj)
    from d1 d2 show ?thesis by blast
  qed
  from a b c d show ?thesis by blast
qed

text \<open>A file without a vector fetched before a file whose vector is the question's.\<close>

lemma concrete_similarities:
  "semantic_similarity exact_ops [1, 0] file_what = Finite (- 1)"
  "semantic_similarity exact_ops [1, 0] file_parser = Finite (- 1)"
  "semantic_similarity exact_ops [1, 0] file_zero = Finite (- 1)"
  "semantic_similarity exact_ops [1, 0] file_near = Finite 1"
  by (simp_all add: semantic_similarity_def exact_ops_def truthy_def file_what_def
        file_parser_def file_zero_def file_near_def)

lemma concrete_unusable:
  "vector_unusable [1, 0] file_what"
  "\<not> vector_unusable [1, 0] file_parser"
  "\<not> vector_unusable [1, 0] file_zero"
  "\<not> vector_unusable [1, 0] file_near"
  by (simp_all add: vector_unusable_def file_what_def file_parser_def file_zero_def
        file_near_def)

theorem semantic_unusable_never_above_witness:
  "vector_unusable [1, 0] file_what
   \<and> semantic_similarity exact_ops [1, 0] file_what = Finite (- 1)
   \<and> semantic_similarity exact_ops [1, 0] file_near = Finite 1
   \<and> exceeds (semantic_similarity exact_ops [1, 0] file_near) (- 1)
   \<and> semantic_ranked exact_ops [1, 0] [file_what, file_near]
       = [(file_near, Finite 1), (file_what, Finite (- 1))]
   \<and> filter (\<lambda>p. snd p = Finite 1) (semantic_ranked exact_ops [1, 0] [file_what, file_near])
       = [(file_near, Finite 1)]
   \<and> semantic_topFiles exact_ops [1, 0] [file_what, file_near] = [file_near, file_what]"
proof -
  have r: "semantic_ranked exact_ops [1, 0] [file_what, file_near]
      = [(file_near, Finite 1), (file_what, Finite (- 1))]"
    by (simp add: semantic_ranked_def array_sort_def concrete_similarities)
  have n: "\<forall>g \<in> set [file_what, file_near]. semantic_similarity exact_ops [1, 0] g \<noteq> NaN"
    by (simp add: concrete_similarities)
  note th = semantic_unusable_never_above [of "[1, 0]" file_what exact_ops "[file_what, file_near]"]
  from th have t: "semantic_topFiles exact_ops [1, 0] [file_what, file_near]
      = map fst (take 5 (semantic_ranked exact_ops [1, 0] [file_what, file_near]))"
    by blast
  from th n have "filter (\<lambda>p. snd p = Finite 1)
        (semantic_ranked exact_ops [1, 0] [file_what, file_near])
      = filter (\<lambda>p. snd p = Finite 1)
          (map (\<lambda>file. (file, semantic_similarity exact_ops [1, 0] file)) [file_what, file_near])"
    by blast
  then have f: "filter (\<lambda>p. snd p = Finite 1)
        (semantic_ranked exact_ops [1, 0] [file_what, file_near]) = [(file_near, Finite 1)]"
    by (simp add: concrete_similarities)
  from t f show ?thesis
    by (simp add: r concrete_similarities concrete_unusable exceeds_def)
qed

text \<open>
  C6 as stated fails: a usable vector can have the computed similarity \<open>- 1\<close> too, as
  the zero vector has by the route's own test of the norm, and the vector \<open>[- 1, 0]\<close>
  against the question \<open>[1, 0]\<close>; then the file without a vector that was fetched first
  stays first.
\<close>

theorem semantic_unusable_first_counterexample:
  "vector_unusable [1, 0] file_what
   \<and> \<not> vector_unusable [1, 0] file_parser
   \<and> \<not> vector_unusable [1, 0] file_zero
   \<and> semantic_topFiles exact_ops [1, 0] [file_what, file_parser, file_zero]
       = [file_what, file_parser, file_zero]"
  by (simp add: semantic_topFiles_def semantic_ranked_def array_sort_def concrete_similarities
        concrete_unusable)


subsection \<open>The candidates of keyword mode\<close>

lemma set_keyword_topFiles: "set (keyword_topFiles q files) \<subseteq> set files"
proof -
  have "set (map fst (take 5 (keyword_ranked q files))) \<subseteq> set (map fst (keyword_ranked q files))"
    by (auto dest: in_set_takeD)
  also have "\<dots> = set files"
    using mset_fst_scored [of "keyword_score q" files, THEN mset_eq_setD]
    by (simp only: keyword_ranked_sort_key)
  finally show ?thesis
    by (simp add: keyword_topFiles_def)
qed

text \<open>
  C10. In keyword mode the handler reads the first 10 rows of the project and nothing
  more: the selected files and the referenced files of the response come from these rows,
  and two tables that agree on them give the same response. In semantic mode all rows of
  the project are read.
\<close>

theorem keyword_mode_ten_candidates:
  "POST_files False pid tbl = take 10 (filter (\<lambda>r. projectId r = pid) tbl)
   \<and> length (POST_files False pid tbl) \<le> 10
   \<and> POST_files True pid tbl = filter (\<lambda>r. projectId r = pid) tbl
   \<and> set (POST_topFiles env False q (POST_files False pid tbl))
        \<subseteq> set (take 10 (filter (\<lambda>r. projectId r = pid) tbl))
   \<and> (\<forall>a refs. POST env False q pid tbl = Json a refs \<longrightarrow>
         set refs \<subseteq> (\<lambda>file. (fileName file, summary file, sourceCode file))
                        ` set (take 10 (filter (\<lambda>r. projectId r = pid) tbl)))
   \<and> (take 10 (filter (\<lambda>r. projectId r = pid) tbl)
         = take 10 (filter (\<lambda>r. projectId r = pid) tbl')
       \<longrightarrow> POST env False q pid tbl = POST env False q pid tbl')"
proof -
  have a: "POST_files False pid tbl = take 10 (filter (\<lambda>r. projectId r = pid) tbl)" for tbl
    by (simp add: POST_files_def findMany_def)
  have b: "length (POST_files False pid tbl) \<le> 10"
    by (simp add: a)
  have c: "POST_files True pid tbl = filter (\<lambda>r. projectId r = pid) tbl"
    by (simp add: POST_files_def findMany_def)
  have d: "set (POST_topFiles env False q (POST_files False pid tbl))
        \<subseteq> set (take 10 (filter (\<lambda>r. projectId r = pid) tbl))"
    using set_keyword_topFiles [of q "POST_files False pid tbl"]
    by (simp add: POST_topFiles_def a)
  have e: "\<forall>a refs. POST env False q pid tbl = Json a refs \<longrightarrow>
         set refs \<subseteq> (\<lambda>file. (fileName file, summary file, sourceCode file))
                        ` set (take 10 (filter (\<lambda>r. projectId r = pid) tbl))"
    using d by (auto simp: POST_def Let_def split: if_splits)
  have f: "take 10 (filter (\<lambda>r. projectId r = pid) tbl)
         = take 10 (filter (\<lambda>r. projectId r = pid) tbl')
       \<longrightarrow> POST env False q pid tbl = POST env False q pid tbl'"
    by (simp add: POST_def a)
  from a b c d e f show ?thesis by blast
qed

text \<open>An eleventh row that matches the question in every field.\<close>

lemma filler_rows_project:
  "filter (\<lambda>r. projectId r = ''p1'') filler_rows = filler_rows" "length filler_rows = 10"
  by (simp_all add: filler_rows_def)

theorem keyword_mode_ten_candidates_witness:
  "POST qa_env_plain False ''tokenizer'' ''p1'' (filler_rows @ [file_eleventh])
     = POST qa_env_plain False ''tokenizer'' ''p1'' filler_rows
   \<and> length (POST_files False ''p1'' (filler_rows @ [file_eleventh])) = 10
   \<and> file_eleventh \<notin> set (POST_files False ''p1'' (filler_rows @ [file_eleventh]))
   \<and> file_eleventh \<in> set (POST_files True ''p1'' (filler_rows @ [file_eleventh]))"
proof -
  have t: "take 10 (filter (\<lambda>r. projectId r = ''p1'') (filler_rows @ [file_eleventh]))
      = take 10 (filter (\<lambda>r. projectId r = ''p1'') filler_rows)"
    by (simp add: filler_rows_project)
  have p: "projectId file_eleventh = ''p1''" "file_eleventh \<notin> set filler_rows"
    by (auto simp: file_eleventh_def filler_rows_def)
  note th = keyword_mode_ten_candidates
      [of "''p1''" "filler_rows @ [file_eleventh]" qa_env_plain "''tokenizer''" filler_rows]
  from th t have "POST qa_env_plain False ''tokenizer'' ''p1'' (filler_rows @ [file_eleventh])
     = POST qa_env_plain False ''tokenizer'' ''p1'' filler_rows"
    by blast
  moreover from th have "POST_files False ''p1'' (filler_rows @ [file_eleventh]) = filler_rows"
    by (simp add: filler_rows_project)
  moreover from th have "POST_files True ''p1'' (filler_rows @ [file_eleventh])
      = filler_rows @ [file_eleventh]"
    by (simp add: filler_rows_project p)
  ultimately show ?thesis
    using p by (simp add: filler_rows_project)
qed


section \<open>Pulling commits twice\<close>






















end
